theory Spec2Isabelle
  imports Main "HOL-Library.Sublist"
begin

section \<open>JavaScript strings\<close>

text \<open>
  A JavaScript string is modelled as a \<open>string\<close> (a list of characters, each standing
  for one code unit below 256). The functions below are the string methods the agent calls, named
  after them: \<open>s.indexOf(d)\<close>, \<open>s.includes(d)\<close>, \<open>s.startsWith(d)\<close>,
  \<open>s.substring(a, b)\<close>, \<open>s.trim()\<close>, \<open>s.split(sep)\<close>, \<open>xs.join(sep)\<close> and
  \<open>s.replace(pattern, replacement)\<close> with a string pattern.
\<close>

fun indexOf :: "string \<Rightarrow> string \<Rightarrow> nat option" where
  "indexOf [] d = (if d = [] then Some 0 else None)"
| "indexOf (c # cs) d =
     (if prefix d (c # cs) then Some 0 else map_option Suc (indexOf cs d))"

definition str_includes :: "string \<Rightarrow> string \<Rightarrow> bool" where
  "str_includes s d = (indexOf s d \<noteq> None)"

definition startsWith :: "string \<Rightarrow> string \<Rightarrow> bool" where
  "startsWith s d = prefix d s"

definition substring :: "string \<Rightarrow> nat \<Rightarrow> nat \<Rightarrow> string" where
  "substring s a b = take (max a b - min a b) (drop (min a b) s)"

definition whitespace :: "char list" where
  "whitespace = [CHR 0x09, CHR 0x0A, CHR 0x0B, CHR 0x0C, CHR 0x0D, CHR 0x20, CHR 0xA0]"

definition is_space :: "char \<Rightarrow> bool" where
  "is_space c = List.member whitespace c"

definition trim :: "string \<Rightarrow> string" where
  "trim s = rev (dropWhile is_space (rev (dropWhile is_space s)))"

fun split :: "char \<Rightarrow> string \<Rightarrow> string list" where
  "split sep [] = [[]]"
| "split sep (c # cs) =
     (if c = sep then [] # split sep cs
      else (case split sep cs of [] \<Rightarrow> [[c]] | l # ls \<Rightarrow> (c # l) # ls))"

fun join :: "string \<Rightarrow> string list \<Rightarrow> string" where
  "join sep [] = []"
| "join sep [x] = x"
| "join sep (x # y # ys) = x @ sep @ join sep (y # ys)"

text \<open>
  \<open>getSubstitution\<close> is the expansion JavaScript applies to the replacement text of
  \<open>replace\<close>: \<open>$$\<close> stands for one dollar sign, \<open>$&\<close> for the matched text, a dollar
  sign followed by a backquote for the text before the match, and a dollar sign followed
  by an apostrophe for the text after it. With a string pattern there are no capture
  groups, so every other character, a lone dollar sign included, is copied.
\<close>

fun getSubstitution :: "string \<Rightarrow> string \<Rightarrow> string \<Rightarrow> string \<Rightarrow> string" where
  "getSubstitution matched preceding following [] = []"
| "getSubstitution matched preceding following [c] = [c]"
| "getSubstitution matched preceding following (c # d # r) =
     (if c = CHR ''$'' \<and> d = CHR ''$'' then CHR ''$'' # getSubstitution matched preceding following r
      else if c = CHR ''$'' \<and> d = CHR ''&'' then matched @ getSubstitution matched preceding following r
      else if c = CHR ''$'' \<and> d = CHR 0x60 then preceding @ getSubstitution matched preceding following r
      else if c = CHR ''$'' \<and> d = CHR 0x27 then following @ getSubstitution matched preceding following r
      else c # getSubstitution matched preceding following (d # r))"

definition replace :: "string \<Rightarrow> string \<Rightarrow> string \<Rightarrow> string" where
  "replace s pat rep =
     (case indexOf s pat of
        None \<Rightarrow> s
      | Some pos \<Rightarrow>
          (let preceding = take pos s; following = drop (pos + length pat) s
           in preceding @ getSubstitution pat preceding following rep @ following))"

text \<open>A number in a template literal: the decimal digits of an integer.\<close>

fun show_nat :: "nat \<Rightarrow> string" where
  "show_nat n =
     (if n < 10 then [''0123456789'' ! n]
      else show_nat (n div 10) @ [''0123456789'' ! (n mod 10)])"

definition show_int :: "int \<Rightarrow> string" where
  "show_int i = (if i < 0 then CHR ''-'' # show_nat (nat (- i)) else show_nat (nat i))"

declare show_nat.simps [simp del]

section \<open>The world the tools act on\<close>

text \<open>
  The file system maps an absolute, normalised path to a file with its text or to a
  directory; the root is one of its directories. Permissions are not modelled: every file
  can be read and written. The world also records every command handed to the shell and
  every line written to the console.
\<close>

datatype node = File string | Dir

type_synonym filesystem = "string \<Rightarrow> node option"

record world =
  files :: filesystem
  spawns :: "string list"
  console :: "string list"

text \<open>A thrown JavaScript error, with its message.\<close>

datatype error = Error string | TypeError string | SyntaxError string

fun message_of :: "error \<Rightarrow> string" where
  "message_of (Error m) = m"
| "message_of (TypeError m) = m"
| "message_of (SyntaxError m) = m"

section \<open>run-command\<close>

text \<open>
  The shell is a collaborator. In \<open>s02_tool_use.ts\<close> it is \<open>execAsync(command, ...)\<close>,
  which resolves with the two output streams when the command exits with status 0 and
  rejects otherwise with an error carrying \<open>killed\<close>, \<open>signal\<close>, \<open>code\<close>, the streams
  (when the process ran) and a message. A command may change the world.
\<close>

record exec_error =
  killed :: bool
  signal :: "string option"
  code :: "int option"
  stdout :: "string option"
  stderr :: "string option"
  message :: string

datatype exec_outcome = Resolved string string | Rejected exec_error

type_synonym shell = "string \<Rightarrow> world \<Rightarrow> exec_outcome \<times> world"

definition dangerous :: "string list" where
  "dangerous = [''rm -rf /'', ''sudo'', ''shutdown'', ''reboot'', ''> /dev/'']"

definition blocked :: "string \<Rightarrow> bool" where
  "blocked command = list_ex (\<lambda>d. str_includes command d) dangerous"

definition execAsync :: "shell \<Rightarrow> string \<Rightarrow> world \<Rightarrow> exec_outcome \<times> world" where
  "execAsync sh command w = sh command (w\<lparr>spawns := spawns w @ [command]\<rparr>)"

definition or_empty :: "string option \<Rightarrow> string" where
  "or_empty v = (case v of None \<Rightarrow> [] | Some s \<Rightarrow> s)"

definition runBash :: "shell \<Rightarrow> string \<Rightarrow> world \<Rightarrow> string \<times> world" where
  "runBash sh command w =
     (if blocked command then (''Error: Dangerous command blocked'', w)
      else
        (case execAsync sh command w of
           (Resolved out err, w') \<Rightarrow>
             (let out = trim (out @ err)
              in (if out \<noteq> [] then substring out 0 50000 else ''(no output)'', w'))
         | (Rejected e, w') \<Rightarrow>
             (if killed e \<and> signal e = Some ''SIGTERM'' then (''Error: Timeout (120s)'', w')
              else
                (let out = trim (or_empty (stdout e) @ or_empty (stderr e))
                 in (if out \<noteq> [] then substring out 0 50000
                     else ''Error: '' @ message e, w')))))"

text \<open>
  In the two \<open>s01_agent_loop\<close> variants the shell is \<open>Bun.spawn\<close>, whose streams
  are then read to their end: either this throws an error with a message, or it yields the
  two streams and whether the process was killed.
\<close>

datatype spawn_outcome = Spawned string string bool | SpawnFailed string

type_synonym spawner = "string \<Rightarrow> world \<Rightarrow> spawn_outcome \<times> world"

definition runBash_s01 :: "spawner \<Rightarrow> string \<Rightarrow> world \<Rightarrow> string \<times> world" where
  "runBash_s01 sp command w =
     (if blocked command then (''Error: Dangerous command blocked'', w)
      else
        (case sp command (w\<lparr>spawns := spawns w @ [command]\<rparr>) of
           (Spawned out err was_killed, w') \<Rightarrow>
             (if was_killed then (''Error: Timeout (120s)'', w')
              else
                (let out = trim (out @ err)
                 in (if out \<noteq> [] then substring out 0 50000 else ''(no output)'', w')))
         | (SpawnFailed m, w') \<Rightarrow> (''Error: '' @ m, w')))"

section \<open>Paths and the file system\<close>

text \<open>
  \<open>resolve wd p\<close> is \<open>path.resolve(WORKDIR, p)\<close> on a POSIX system, where the working
  directory is absolute: an absolute \<open>p\<close> stands alone, a relative one is appended to the
  working directory; then empty and \<open>.\<close> segments are dropped and each \<open>..\<close> removes the
  segment before it (at the root it removes nothing).
\<close>

definition isAbsolute :: "string \<Rightarrow> bool" where
  "isAbsolute p = startsWith p ''/''"

fun normalizeString :: "string list \<Rightarrow> string list \<Rightarrow> string list" where
  "normalizeString acc [] = rev acc"
| "normalizeString acc (s # ss) =
     (if s = [] \<or> s = ''.'' then normalizeString acc ss
      else if s = ''..'' then normalizeString (case acc of [] \<Rightarrow> [] | _ # up \<Rightarrow> up) ss
      else normalizeString (s # acc) ss)"

definition resolve :: "string \<Rightarrow> string \<Rightarrow> string" where
  "resolve wd p =
     CHR ''/'' # join ''/''
       (normalizeString [] (split CHR ''/'' (if isAbsolute p then p else wd @ ''/'' @ p)))"

definition segments :: "string \<Rightarrow> string list" where
  "segments p = filter (\<lambda>s. s \<noteq> []) (split CHR ''/'' p)"

definition dirname :: "string \<Rightarrow> string" where
  "dirname fp = CHR ''/'' # join ''/'' (butlast (segments fp))"

text \<open>
  A path lies in the working directory when it is the directory itself or a path below
  it: segment by segment, the working directory is a prefix of it.
\<close>

definition inside :: "string \<Rightarrow> string \<Rightarrow> bool" where
  "inside wd fp = prefix (segments wd) (segments fp)"

definition safePath :: "string \<Rightarrow> string \<Rightarrow> error + string" where
  "safePath wd p =
     (let resolvedPath = resolve wd p
      in if \<not> startsWith resolvedPath wd then Inl (Error (''Path escapes workspace: '' @ p))
         else Inr resolvedPath)"

text \<open>
  The calls into \<open>node:fs/promises\<close>. \<open>readFile\<close> fails on a missing path and on a
  directory; \<open>mkdir\<close> with \<open>recursive: true\<close> creates the directories of a path from the
  root down and fails when it meets a file, keeping what it has created; \<open>writeFile\<close>
  creates or overwrites a file and fails on a directory (the executors call it only where
  the directory of the file exists).
\<close>

definition readFile :: "filesystem \<Rightarrow> string \<Rightarrow> error + string" where
  "readFile fs fp =
     (case fs fp of
        Some (File text) \<Rightarrow> Inr text
      | Some Dir \<Rightarrow> Inl (Error ''EISDIR: illegal operation on a directory, read'')
      | None \<Rightarrow>
          Inl (Error (''ENOENT: no such file or directory, open '' @ [CHR 0x27] @ fp @ [CHR 0x27])))"

fun mkdirs :: "filesystem \<Rightarrow> string \<Rightarrow> string list \<Rightarrow> error option \<times> filesystem" where
  "mkdirs fs cur [] = (None, fs)"
| "mkdirs fs cur (s # ss) =
     (case fs (cur @ ''/'' @ s) of
        Some (File text) \<Rightarrow>
          (Some (Error (''ENOTDIR: not a directory, mkdir '' @ cur @ ''/'' @ s)), fs)
      | _ \<Rightarrow> mkdirs (fs(cur @ ''/'' @ s \<mapsto> Dir)) (cur @ ''/'' @ s) ss)"

definition mkdir :: "filesystem \<Rightarrow> string \<Rightarrow> error option \<times> filesystem" where
  "mkdir fs dir = mkdirs fs [] (segments dir)"

definition writeFile :: "filesystem \<Rightarrow> string \<Rightarrow> string \<Rightarrow> error + filesystem" where
  "writeFile fs fp content =
     (if fs fp = Some Dir
      then Inl (Error (''EISDIR: illegal operation on a directory, open '' @ fp))
      else Inr (fs(fp \<mapsto> File content)))"

definition byteLength :: "string \<Rightarrow> nat" where
  "byteLength content = sum_list (map (\<lambda>c. if (of_char c :: nat) < 128 then 1 else 2) content)"

section \<open>read-file, write-file, patch-file\<close>

text \<open>
  The three file executors of \<open>s02_tool_use.ts\<close>, with the working directory \<open>wd\<close>
  (\<open>WORKDIR\<close>) as a parameter. Each body is one \<open>try\<close> block whose \<open>catch\<close> returns
  \<open>Error: \<close> followed by the message. \<open>limit\<close> is \<open>None\<close> when the argument is
  \<open>undefined\<close>; \<open>slice0 xs k\<close> is \<open>xs.slice(0, k)\<close>.
\<close>

definition slice0 :: "'a list \<Rightarrow> int \<Rightarrow> 'a list" where
  "slice0 xs k = (if k < 0 then take (nat (int (length xs) + k)) xs else take (nat k) xs)"

definition newline :: string where
  "newline = [CHR 0x0A]"

definition more_lines :: "int \<Rightarrow> string" where
  "more_lines n = ''... ('' @ show_int n @ '' more lines)''"

definition runRead :: "string \<Rightarrow> string \<Rightarrow> int option \<Rightarrow> world \<Rightarrow> string \<times> world" where
  "runRead wd p limit w =
     (case safePath wd p of
        Inl e \<Rightarrow> (''Error: '' @ message_of e, w)
      | Inr fp \<Rightarrow>
          (case readFile (files w) fp of
             Inl e \<Rightarrow> (''Error: '' @ message_of e, w)
           | Inr text \<Rightarrow>
               (let lines = split CHR 0x0A text;
                    lines =
                      (case limit of
                         None \<Rightarrow> lines
                       | Some l \<Rightarrow>
                           (if l \<noteq> 0 \<and> l < int (length lines)
                            then slice0 lines l
                                   @ [more_lines (int (length (split CHR 0x0A text)) - l)]
                            else lines))
                in (substring (join newline lines) 0 50000, w))))"

definition runWrite :: "string \<Rightarrow> string \<Rightarrow> string \<Rightarrow> world \<Rightarrow> string \<times> world" where
  "runWrite wd p content w =
     (case safePath wd p of
        Inl e \<Rightarrow> (''Error: '' @ message_of e, w)
      | Inr fp \<Rightarrow>
          (case mkdir (files w) (dirname fp) of
             (Some e, fs') \<Rightarrow> (''Error: '' @ message_of e, w\<lparr>files := fs'\<rparr>)
           | (None, fs') \<Rightarrow>
               (case writeFile fs' fp content of
                  Inl e \<Rightarrow> (''Error: '' @ message_of e, w\<lparr>files := fs'\<rparr>)
                | Inr fs'' \<Rightarrow>
                    (''Wrote '' @ show_nat (byteLength content) @ '' bytes to '' @ p,
                     w\<lparr>files := fs''\<rparr>))))"

definition runEdit :: "string \<Rightarrow> string \<Rightarrow> string \<Rightarrow> string \<Rightarrow> world \<Rightarrow> string \<times> world" where
  "runEdit wd p oldText newText w =
     (case safePath wd p of
        Inl e \<Rightarrow> (''Error: '' @ message_of e, w)
      | Inr fp \<Rightarrow>
          (case readFile (files w) fp of
             Inl e \<Rightarrow> (''Error: '' @ message_of e, w)
           | Inr content \<Rightarrow>
               (if \<not> str_includes content oldText then (''Error: Text not found in '' @ p, w)
                else
                  (case writeFile (files w) fp (replace content oldText newText) of
                     Inl e \<Rightarrow> (''Error: '' @ message_of e, w)
                   | Inr fs' \<Rightarrow> (''Edited '' @ p, w\<lparr>files := fs'\<rparr>)))))"

section \<open>Tool invocations and the dispatch map\<close>

text \<open>
  A value of JavaScript as \<open>JSON.parse\<close> builds it, and \<open>undefined\<close> for a property that
  is not there. Numbers are restricted to integers. An object holds its properties in the
  order of the text; for a key written twice the last one counts.
\<close>

datatype jsval =
    JUndefined
  | JNull
  | JBool bool
  | JNum int
  | JStr string
  | JArr "jsval list"
  | JObj "(string \<times> jsval) list"

text \<open>
  The text of \<open>toolCall.function.arguments\<close> comes from the model. It is represented by
  what \<open>JSON.parse\<close> makes of it: \<open>Malformed\<close> for a text that is not JSON, where the
  call throws a \<open>SyntaxError\<close>, and \<open>Json v\<close> for a text that parses to \<open>v\<close>.
\<close>

datatype payload = Malformed | Json jsval

fun JSON_parse :: "payload \<Rightarrow> error + jsval" where
  "JSON_parse Malformed = Inl (SyntaxError ''JSON Parse error'')"
| "JSON_parse (Json v) = Inr v"

record tool_call =
  tc_id :: string
  tc_name :: string
  tc_arguments :: payload

text \<open>
  \<open>get args k\<close> is the property read \<open>args.k\<close>, for the keys the handlers read
  (\<open>command\<close>, \<open>path\<close>, \<open>limit\<close>, \<open>content\<close>, \<open>old_text\<close>, \<open>new_text\<close>): it throws on
  \<open>null\<close> and \<open>undefined\<close>, and no other value than an object has such a property.
\<close>

definition field :: "(string \<times> jsval) list \<Rightarrow> string \<Rightarrow> jsval" where
  "field kvs k = (case map_of (rev kvs) k of None \<Rightarrow> JUndefined | Some v \<Rightarrow> v)"

fun get :: "jsval \<Rightarrow> string \<Rightarrow> error + jsval" where
  "get JUndefined k = Inl (TypeError (''undefined is not an object (reading '' @ k @ '')''))"
| "get JNull k = Inl (TypeError (''null is not an object (reading '' @ k @ '')''))"
| "get (JObj kvs) k = Inr (field kvs k)"
| "get (JBool b) k = Inr JUndefined"
| "get (JNum n) k = Inr JUndefined"
| "get (JStr s) k = Inr JUndefined"
| "get (JArr xs) k = Inr JUndefined"

text \<open>
  The environment of the agent: the working directory, the shell, and \<open>untyped\<close>, which
  stands for what a handler does with arguments that are not of the types its schema
  declares. That depends on the conversions of JavaScript and of the libraries called,
  which are not modelled; a result holds for every such function.
\<close>

type_synonym handler_result = "(error + string) \<times> world"

record env =
  WORKDIR :: string
  shell_of :: shell
  untyped :: "string \<Rightarrow> jsval \<Rightarrow> world \<Rightarrow> handler_result"

definition returned :: "string \<times> world \<Rightarrow> handler_result" where
  "returned r = (Inr (fst r), snd r)"

text \<open>
  \<open>(args) => runBash(args.command)\<close>. The denylist test \<open>command.includes(d)\<close> stands
  before the \<open>try\<close> block of \<open>runBash\<close>, so a command without an \<open>includes\<close> method
  throws out of the handler. An array has one, and is left to \<open>untyped\<close>.
\<close>

definition bash_handler :: "env \<Rightarrow> jsval \<Rightarrow> world \<Rightarrow> handler_result" where
  "bash_handler env args w =
     (case get args ''command'' of
        Inl e \<Rightarrow> (Inl e, w)
      | Inr (JStr command) \<Rightarrow> returned (runBash (shell_of env) command w)
      | Inr (JArr xs) \<Rightarrow> untyped env ''bash'' args w
      | Inr v \<Rightarrow> (Inl (TypeError ''command.includes cannot be called''), w))"

text \<open>\<open>(args) => runRead(args.path, args.limit)\<close>\<close>

definition read_file_handler :: "env \<Rightarrow> jsval \<Rightarrow> world \<Rightarrow> handler_result" where
  "read_file_handler env args w =
     (case get args ''path'' of
        Inl e \<Rightarrow> (Inl e, w)
      | Inr path \<Rightarrow>
          (case get args ''limit'' of
             Inl e \<Rightarrow> (Inl e, w)
           | Inr limit \<Rightarrow>
               (case (path, limit) of
                  (JStr p, JUndefined) \<Rightarrow> returned (runRead (WORKDIR env) p None w)
                | (JStr p, JNum l) \<Rightarrow> returned (runRead (WORKDIR env) p (Some l) w)
                | _ \<Rightarrow> untyped env ''read_file'' args w)))"

text \<open>\<open>(args) => runWrite(args.path, args.content)\<close>\<close>

definition write_file_handler :: "env \<Rightarrow> jsval \<Rightarrow> world \<Rightarrow> handler_result" where
  "write_file_handler env args w =
     (case get args ''path'' of
        Inl e \<Rightarrow> (Inl e, w)
      | Inr path \<Rightarrow>
          (case get args ''content'' of
             Inl e \<Rightarrow> (Inl e, w)
           | Inr content \<Rightarrow>
               (case (path, content) of
                  (JStr p, JStr c) \<Rightarrow> returned (runWrite (WORKDIR env) p c w)
                | _ \<Rightarrow> untyped env ''write_file'' args w)))"

text \<open>\<open>(args) => runEdit(args.path, args.old_text, args.new_text)\<close>\<close>

definition edit_file_handler :: "env \<Rightarrow> jsval \<Rightarrow> world \<Rightarrow> handler_result" where
  "edit_file_handler env args w =
     (case get args ''path'' of
        Inl e \<Rightarrow> (Inl e, w)
      | Inr path \<Rightarrow>
          (case get args ''old_text'' of
             Inl e \<Rightarrow> (Inl e, w)
           | Inr old_text \<Rightarrow>
               (case get args ''new_text'' of
                  Inl e \<Rightarrow> (Inl e, w)
                | Inr new_text \<Rightarrow>
                    (case (path, old_text, new_text) of
                       (JStr p, JStr ot, JStr nt) \<Rightarrow> returned (runEdit (WORKDIR env) p ot nt w)
                     | _ \<Rightarrow> untyped env ''edit_file'' args w))))"

definition TOOL_HANDLERS :: "(string \<times> (env \<Rightarrow> jsval \<Rightarrow> world \<Rightarrow> handler_result)) list" where
  "TOOL_HANDLERS =
     [(''bash'', bash_handler),
      (''read_file'', read_file_handler),
      (''write_file'', write_file_handler),
      (''edit_file'', edit_file_handler)]"

text \<open>
  \<open>TOOL_HANDLERS\<close> is an object literal, so the read \<open>TOOL_HANDLERS[name]\<close> also finds
  what every object inherits from \<open>Object.prototype\<close>. The loop calls what it finds as
  \<open>handler(args)\<close> and then \<open>output.substring(0, 200)\<close>. Of the inherited properties
  only two get through both: \<open>toString\<close>, which returns \<open>[object Undefined]\<close>, and
  \<open>constructor\<close> on a string, which returns the string as an object. All others throw a
  \<open>TypeError\<close> in one of the two calls.
\<close>

definition Object_prototype :: "string list" where
  "Object_prototype =
     [''constructor'', ''__defineGetter__'', ''__defineSetter__'', ''hasOwnProperty'',
      ''__lookupGetter__'', ''__lookupSetter__'', ''isPrototypeOf'',
      ''propertyIsEnumerable'', ''toString'', ''valueOf'', ''__proto__'',
      ''toLocaleString'']"

definition inherited :: "string \<Rightarrow> env \<Rightarrow> jsval \<Rightarrow> world \<Rightarrow> handler_result" where
  "inherited name env args w =
     (if name = ''toString'' then (Inr ''[object Undefined]'', w)
      else
        (case (name = ''constructor'', args) of
           (True, JStr s) \<Rightarrow> (Inr s, w)
         | _ \<Rightarrow> (Inl (TypeError (name @ '' cannot be called as a tool handler'')), w)))"

definition lookup :: "string \<Rightarrow> (env \<Rightarrow> jsval \<Rightarrow> world \<Rightarrow> handler_result) option" where
  "lookup name =
     (case map_of TOOL_HANDLERS name of
        Some handler \<Rightarrow> Some handler
      | None \<Rightarrow> (if List.member Object_prototype name then Some (inherited name) else None))"

section \<open>The agent loop of s02_tool_use.ts\<close>

record assistant_message =
  content :: "string option"
  tool_calls :: "tool_call list option"

datatype message =
    System string
  | User string
  | Assistant assistant_message
  | Tool string string

text \<open>
  The model is a collaborator: given the conversation it returns \<open>choices[0]\<close> of a
  completion, with its \<open>finish_reason\<close> and its message, or the call throws.
\<close>

record response =
  finish_reason :: string
  choice_message :: assistant_message

type_synonym model = "message list \<Rightarrow> error + response"

definition SYSTEM :: "env \<Rightarrow> string" where
  "SYSTEM env =
     ''You are a coding agent at '' @ WORKDIR env
       @ ''. Use tools to solve tasks. Act, don't explain.''"

definition escape_newlines :: "string \<Rightarrow> string" where
  "escape_newlines s = concat (map (\<lambda>c. if c = CHR 0x0A then [CHR 0x5C, CHR ''n''] else [c]) s)"

definition trace_line :: "string \<Rightarrow> string \<Rightarrow> string" where
  "trace_line name output =
     ''> '' @ name @ '': '' @ escape_newlines (substring output 0 200)"

text \<open>
  One pass of the body of \<open>for (const toolCall of message.tool_calls)\<close> up to the value of
  \<open>output\<close>: the arguments are parsed first, then the handler is looked up and called.
\<close>

definition dispatch :: "env \<Rightarrow> tool_call \<Rightarrow> world \<Rightarrow> handler_result" where
  "dispatch env toolCall w =
     (case JSON_parse (tc_arguments toolCall) of
        Inl e \<Rightarrow> (Inl e, w)
      | Inr args \<Rightarrow>
          (case lookup (tc_name toolCall) of
             Some handler \<Rightarrow> handler env args w
           | None \<Rightarrow> (Inr (''Unknown tool: '' @ tc_name toolCall), w)))"

text \<open>
  The \<open>for\<close> loop over the tool calls. The state is the conversation and the world; the
  first component of the result is the error thrown, if any. A throw leaves the loop with
  the conversation as it is at that moment.
\<close>

fun tool_round ::
  "env \<Rightarrow> tool_call list \<Rightarrow> message list \<times> world \<Rightarrow> error option \<times> message list \<times> world"
where
  "tool_round env [] (messages, w) = (None, messages, w)"
| "tool_round env (toolCall # rest) (messages, w) =
     (case dispatch env toolCall w of
        (Inl e, w') \<Rightarrow> (Some e, messages, w')
      | (Inr output, w') \<Rightarrow>
          tool_round env rest
            (messages @ [Tool (tc_id toolCall) output],
             w'\<lparr>console := console w' @ [trace_line (tc_name toolCall) output]\<rparr>))"

definition log_content :: "assistant_message \<Rightarrow> world \<Rightarrow> world" where
  "log_content m w =
     (case content m of
        None \<Rightarrow> w
      | Some c \<Rightarrow> (if c \<noteq> [] then w\<lparr>console := console w @ [c]\<rparr> else w))"

text \<open>
  \<open>iteration\<close> is one pass through the body of \<open>while (true)\<close>: the model is called,
  its message is appended and printed, and either the loop is left (\<open>Inl\<close>, with the error
  thrown, if any, and the state at that moment) or all tool calls have been answered and
  the next pass starts from the new state (\<open>Inr\<close>).
\<close>

definition iteration ::
  "env \<Rightarrow> model \<Rightarrow> message list \<times> world
     \<Rightarrow> (error option \<times> message list \<times> world) + (message list \<times> world)"
where
  "iteration env llm state =
     (case llm (System (SYSTEM env) # fst state) of
        Inl e \<Rightarrow> Inl (Some e, state)
      | Inr r \<Rightarrow>
          (let messages = fst state @ [Assistant (choice_message r)];
               w = log_content (choice_message r) (snd state)
           in (case tool_calls (choice_message r) of
                 None \<Rightarrow> Inl (None, messages, w)
               | Some calls \<Rightarrow>
                   (if finish_reason r \<noteq> ''tool_calls'' then Inl (None, messages, w)
                    else
                      (case tool_round env calls (messages, w) of
                         (Some e, state') \<Rightarrow> Inl (Some e, state')
                       | (None, state') \<Rightarrow> Inr state')))))"

text \<open>
  \<open>agentLoop\<close> is the \<open>while (true)\<close> loop. It has no bound, so its result is optional:
  \<open>None\<close> when the loop never ends, \<open>Some (None, state)\<close> when it returns and
  \<open>Some (Some e, state)\<close> when \<open>e\<close> is thrown out of it.
\<close>

partial_function (option) agentLoop ::
  "env \<Rightarrow> model \<Rightarrow> message list \<times> world \<Rightarrow> (error option \<times> message list \<times> world) option"
where
  "agentLoop env llm state =
     (case iteration env llm state of
        Inl result \<Rightarrow> Some result
      | Inr state' \<Rightarrow> agentLoop env llm state')"

text \<open>
  A tool call is well formed when its arguments parse to an object and either the name is
  one of the four tools and the fields the handler reads have the types the schema
  declares (\<open>limit\<close> may be missing), or the name is unknown to \<open>TOOL_HANDLERS\<close> and
  to \<open>Object.prototype\<close>.
\<close>

fun is_string :: "jsval \<Rightarrow> bool" where
  "is_string (JStr s) = True"
| "is_string v = False"

fun is_limit :: "jsval \<Rightarrow> bool" where
  "is_limit JUndefined = True"
| "is_limit (JNum n) = True"
| "is_limit v = False"

definition well_typed :: "string \<Rightarrow> (string \<times> jsval) list \<Rightarrow> bool" where
  "well_typed name kvs =
     (if name = ''bash'' then is_string (field kvs ''command'')
      else if name = ''read_file''
        then is_string (field kvs ''path'') \<and> is_limit (field kvs ''limit'')
      else if name = ''write_file''
        then is_string (field kvs ''path'') \<and> is_string (field kvs ''content'')
      else if name = ''edit_file''
        then is_string (field kvs ''path'') \<and> is_string (field kvs ''old_text'')
               \<and> is_string (field kvs ''new_text'')
      else \<not> List.member Object_prototype name)"

definition well_formed :: "tool_call \<Rightarrow> bool" where
  "well_formed toolCall =
     (case tc_arguments toolCall of
        Json (JObj kvs) \<Rightarrow> well_typed (tc_name toolCall) kvs
      | _ \<Rightarrow> False)"

section \<open>The agent loops of the two s01_agent_loop variants\<close>

text \<open>
  Both variants know one tool and read its command as
  \<open>typeof c === "string" ? c : String(c || "")\<close>, where \<open>c\<close> is the property
  \<open>command\<close> of the arguments. \<open>to_string\<close> stands for JavaScript's conversion of an
  array or an object to a string, which may throw.
\<close>

fun falsy :: "jsval \<Rightarrow> bool" where
  "falsy JUndefined = True"
| "falsy JNull = True"
| "falsy (JBool b) = (\<not> b)"
| "falsy (JNum n) = (n = 0)"
| "falsy (JStr s) = (s = [])"
| "falsy v = False"

fun String_of :: "(jsval \<Rightarrow> error + string) \<Rightarrow> jsval \<Rightarrow> error + string" where
  "String_of to_string JUndefined = Inr ''undefined''"
| "String_of to_string JNull = Inr ''null''"
| "String_of to_string (JBool b) = Inr (if b then ''true'' else ''false'')"
| "String_of to_string (JNum n) = Inr (show_int n)"
| "String_of to_string (JStr s) = Inr s"
| "String_of to_string v = to_string v"

definition command_of :: "(jsval \<Rightarrow> error + string) \<Rightarrow> jsval \<Rightarrow> error + string" where
  "command_of to_string input =
     (case get input ''command'' of
        Inl e \<Rightarrow> Inl e
      | Inr (JStr c) \<Rightarrow> Inr c
      | Inr c \<Rightarrow> (if falsy c then Inr [] else String_of to_string c))"

definition yellow :: "string \<Rightarrow> string" where
  "yellow command = [CHR 0x1B] @ ''[33m$ '' @ command @ [CHR 0x1B] @ ''[0m''"

text \<open>
  The Anthropic variant. A reply holds content blocks; the loop runs every \<open>tool_use\<close>
  block as a shell command, whatever its name, collects the results and appends them as
  one user turn.
\<close>

datatype block = TextBlock string | ToolUse string string jsval | OtherBlock

datatype turn =
    UserText string
  | AssistantBlocks "block list"
  | ToolResults "(string \<times> string) list"

record reply =
  stop_reason :: string
  reply_content :: "block list"

fun use_tools ::
  "spawner \<Rightarrow> (jsval \<Rightarrow> error + string) \<Rightarrow> block list \<Rightarrow> (string \<times> string) list \<times> world
     \<Rightarrow> error option \<times> (string \<times> string) list \<times> world"
where
  "use_tools sp to_string [] (results, w) = (None, results, w)"
| "use_tools sp to_string (ToolUse uid name input # rest) (results, w) =
     (case command_of to_string input of
        Inl e \<Rightarrow> (Some e, results, w)
      | Inr command \<Rightarrow>
          (case runBash_s01 sp command (w\<lparr>console := console w @ [yellow command]\<rparr>) of
             (output, w') \<Rightarrow>
               use_tools sp to_string rest
                 (results @ [(uid, output)],
                  w'\<lparr>console := console w' @ [substring output 0 200]\<rparr>)))"
| "use_tools sp to_string (b # rest) (results, w) = use_tools sp to_string rest (results, w)"

text \<open>
  The identifiers of the \<open>tool_use\<close> blocks of a reply, in order, and the blocks whose
  command can be read without an error.
\<close>

fun tool_use_ids :: "block list \<Rightarrow> string list" where
  "tool_use_ids [] = []"
| "tool_use_ids (ToolUse uid name input # rest) = uid # tool_use_ids rest"
| "tool_use_ids (b # rest) = tool_use_ids rest"

fun readable :: "(jsval \<Rightarrow> error + string) \<Rightarrow> block \<Rightarrow> bool" where
  "readable to_string (ToolUse uid name input) =
     (case command_of to_string input of Inl e \<Rightarrow> False | Inr command \<Rightarrow> True)"
| "readable to_string b = True"

definition iteration_anthropic ::
  "spawner \<Rightarrow> (jsval \<Rightarrow> error + string) \<Rightarrow> (turn list \<Rightarrow> error + reply) \<Rightarrow> turn list \<times> world
     \<Rightarrow> (error option \<times> turn list \<times> world) + (turn list \<times> world)"
where
  "iteration_anthropic sp to_string llm state =
     (case llm (fst state) of
        Inl e \<Rightarrow> Inl (Some e, state)
      | Inr r \<Rightarrow>
          (let messages = fst state @ [AssistantBlocks (reply_content r)]
           in (if stop_reason r \<noteq> ''tool_use'' then Inl (None, messages, snd state)
               else
                 (case use_tools sp to_string (reply_content r) ([], snd state) of
                    (Some e, results, w') \<Rightarrow> Inl (Some e, messages, w')
                  | (None, results, w') \<Rightarrow> Inr (messages @ [ToolResults results], w')))))"

partial_function (option) agentLoop_anthropic ::
  "spawner \<Rightarrow> (jsval \<Rightarrow> error + string) \<Rightarrow> (turn list \<Rightarrow> error + reply) \<Rightarrow> turn list \<times> world
     \<Rightarrow> (error option \<times> turn list \<times> world) option"
where
  "agentLoop_anthropic sp to_string llm state =
     (case iteration_anthropic sp to_string llm state of
        Inl result \<Rightarrow> Some result
      | Inr state' \<Rightarrow> agentLoop_anthropic sp to_string llm state')"

text \<open>
  The OpenAI variant. A tool call whose name is not \<open>bash\<close> is passed over; arguments
  that do not parse are replaced by \<open>{ command: "" }\<close>.
\<close>

fun tool_round_s01 ::
  "spawner \<Rightarrow> (jsval \<Rightarrow> error + string) \<Rightarrow> tool_call list \<Rightarrow> message list \<times> world
     \<Rightarrow> error option \<times> message list \<times> world"
where
  "tool_round_s01 sp to_string [] (messages, w) = (None, messages, w)"
| "tool_round_s01 sp to_string (toolCall # rest) (messages, w) =
     (if tc_name toolCall = ''bash'' then
        (case command_of to_string
                (case JSON_parse (tc_arguments toolCall) of
                   Inl e \<Rightarrow> JObj [(''command'', JStr [])]
                 | Inr args \<Rightarrow> args) of
           Inl e \<Rightarrow> (Some e, messages, w)
         | Inr command \<Rightarrow>
             (case runBash_s01 sp command (w\<lparr>console := console w @ [yellow command]\<rparr>) of
                (output, w') \<Rightarrow>
                  tool_round_s01 sp to_string rest
                    (messages @ [Tool (tc_id toolCall) output],
                     w'\<lparr>console := console w' @ [substring output 0 200]\<rparr>)))
      else tool_round_s01 sp to_string rest (messages, w))"

definition iteration_s01 ::
  "spawner \<Rightarrow> (jsval \<Rightarrow> error + string) \<Rightarrow> model \<Rightarrow> message list \<times> world
     \<Rightarrow> (error option \<times> message list \<times> world) + (message list \<times> world)"
where
  "iteration_s01 sp to_string llm state =
     (case llm (fst state) of
        Inl e \<Rightarrow> Inl (Some e, state)
      | Inr r \<Rightarrow>
          (let messages = fst state @ [Assistant (choice_message r)]
           in (case tool_calls (choice_message r) of
                 None \<Rightarrow> Inl (None, messages, snd state)
               | Some calls \<Rightarrow>
                   (if finish_reason r \<noteq> ''tool_calls'' then Inl (None, messages, snd state)
                    else
                      (case tool_round_s01 sp to_string calls (messages, snd state) of
                         (Some e, state') \<Rightarrow> Inl (Some e, state')
                       | (None, state') \<Rightarrow> Inr state')))))"

partial_function (option) agentLoop_s01 ::
  "spawner \<Rightarrow> (jsval \<Rightarrow> error + string) \<Rightarrow> model \<Rightarrow> message list \<times> world
     \<Rightarrow> (error option \<times> message list \<times> world) option"
where
  "agentLoop_s01 sp to_string llm state =
     (case iteration_s01 sp to_string llm state of
        Inl result \<Rightarrow> Some result
      | Inr state' \<Rightarrow> agentLoop_s01 sp to_string llm state')"

section \<open>Concrete inputs\<close>

text \<open>
  A small world and stub collaborators, for evaluating the functions above on concrete
  inputs: the working directory \<open>/w\<close> holds \<open>notes/a.txt\<close> with the text \<open>hello\<close>
  and \<open>notes/b.txt\<close> with the three lines \<open>one\<close>, \<open>two\<close>, \<open>three\<close>, and beside it the directory \<open>/w2\<close> holds \<open>secret.txt\<close> with the text \<open>key\<close>.
\<close>

definition world0 :: world where
  "world0 =
     \<lparr>files =
        [''/'' \<mapsto> Dir, ''/w'' \<mapsto> Dir, ''/w/notes'' \<mapsto> Dir, ''/w/notes/a.txt'' \<mapsto> File ''hello'',
         ''/w/notes/b.txt'' \<mapsto> File (''one'' @ newline @ ''two'' @ newline @ ''three''),
         ''/w2'' \<mapsto> Dir, ''/w2/secret.txt'' \<mapsto> File ''key''],
      spawns = [], console = []\<rparr>"



definition passing_shell :: shell where
  "passing_shell command w = (Resolved [] (''boom'' @ newline), w)"

definition refusing_spawner :: spawner where
  "refusing_spawner command w = (SpawnFailed ''spawn failed'', w)"

text \<open>
  An environment, stub collaborators and tool calls. The model \<open>asks reason calls\<close>
  answers a conversation without tool results by requesting \<open>calls\<close> with the finish
  reason \<open>reason\<close>, and any other conversation with a final text.
\<close>

definition env0 :: env where
  "env0 =
     \<lparr>WORKDIR = ''/w'', shell_of = passing_shell,
      untyped = (\<lambda>name args w. (Inl (TypeError ''arguments of an undeclared type''), w))\<rparr>"

definition quiet_spawner :: spawner where
  "quiet_spawner command w = (Spawned [] [] False, w)"

definition object_to_string :: "jsval \<Rightarrow> error + string" where
  "object_to_string v = Inr ''[object Object]''"

fun is_tool :: "message \<Rightarrow> bool" where
  "is_tool (Tool i out) = True"
| "is_tool m = False"

definition request :: "tool_call list \<Rightarrow> assistant_message" where
  "request calls = \<lparr>content = None, tool_calls = Some calls\<rparr>"

definition asks :: "string \<Rightarrow> tool_call list \<Rightarrow> model" where
  "asks reason calls messages =
     (if list_ex is_tool messages
      then Inr \<lparr>finish_reason = ''stop'',
                choice_message = \<lparr>content = Some ''done'', tool_calls = None\<rparr>\<rparr>
      else Inr \<lparr>finish_reason = reason, choice_message = request calls\<rparr>)"

definition bash_call :: tool_call where
  "bash_call =
     \<lparr>tc_id = ''call_1'', tc_name = ''bash'',
      tc_arguments = Json (JObj [(''command'', JStr ''make test'')])\<rparr>"

definition search_call :: tool_call where
  "search_call = \<lparr>tc_id = ''call_2'', tc_name = ''search'', tc_arguments = Json (JObj [])\<rparr>"

definition malformed_call :: tool_call where
  "malformed_call = \<lparr>tc_id = ''call_1'', tc_name = ''bash'', tc_arguments = Malformed\<rparr>"

definition empty_call :: tool_call where
  "empty_call = \<lparr>tc_id = ''call_1'', tc_name = ''bash'', tc_arguments = Json (JObj [])\<rparr>"

definition malformed_search_call :: tool_call where
  "malformed_search_call = \<lparr>tc_id = ''call_1'', tc_name = ''search'', tc_arguments = Malformed\<rparr>"

definition toString_call :: tool_call where
  "toString_call = \<lparr>tc_id = ''call_1'', tc_name = ''toString'', tc_arguments = Json (JObj [])\<rparr>"

text \<open>The same for the Anthropic variant, with a reply that holds two tool uses.\<close>

definition is_results :: "turn \<Rightarrow> bool" where
  "is_results t = (case t of ToolResults rs \<Rightarrow> True | _ \<Rightarrow> False)"

definition asks_anthropic :: "string \<Rightarrow> block list \<Rightarrow> turn list \<Rightarrow> error + reply" where
  "asks_anthropic reason blocks turns =
     (if list_ex is_results turns
      then Inr \<lparr>stop_reason = ''end_turn'', reply_content = [TextBlock ''done'']\<rparr>
      else Inr \<lparr>stop_reason = reason, reply_content = blocks\<rparr>)"

definition two_tool_uses :: "block list" where
  "two_tool_uses =
     [TextBlock ''Running the tests.'',
      ToolUse ''toolu_1'' ''bash'' (JObj [(''command'', JStr ''make test'')]),
      ToolUse ''toolu_2'' ''search'' (JObj [(''command'', JStr ''ls'')])]"




section \<open>Properties\<close>





lemma indexOf_None: "(indexOf s d = None) = (\<not> sublist d s)"
proof (induction s)
  case Nil
  then show ?case by simp
next
  case (Cons c cs)
  then show ?case by (simp add: sublist_Cons_right)
qed

lemma str_includes_sublist: "str_includes s d = sublist d s"
  by (simp add: str_includes_def indexOf_None)

subsection \<open>run-command\<close>

lemma blocked_iff: "blocked command = (\<exists>d \<in> set dangerous. sublist d command)"
  by (simp add: blocked_def list_ex_iff str_includes_sublist)

text \<open>
  C7: a command that contains one of the denylisted texts as a substring is answered with
  exactly \<open>Error: Dangerous command blocked\<close>, whatever the shell would do, and the world
  is returned as it was: nothing is added to the record of spawned commands. This holds for
  \<open>runBash\<close> of \<open>s02_tool_use.ts\<close> and for the one shared by the two
  \<open>s01_agent_loop\<close> variants.
\<close>

theorem denylist_blocks:
  assumes "d \<in> set dangerous" and "sublist d command"
  shows "runBash sh command w = (''Error: Dangerous command blocked'', w)
       \<and> spawns (snd (runBash sh command w)) = spawns w
       \<and> runBash_s01 sp command w = (''Error: Dangerous command blocked'', w)
       \<and> spawns (snd (runBash_s01 sp command w)) = spawns w"
proof -
  have "blocked command" using assms blocked_iff by blast
  then show ?thesis by (simp add: runBash_def runBash_s01_def)
qed

lemma sublist_sudo: "sublist ''sudo'' ''sudo ls''"
  by (simp add: str_includes_sublist [symmetric] str_includes_def)

theorem denylist_blocks_witness:
  "''sudo'' \<in> set dangerous \<and> sublist ''sudo'' ''sudo ls''
   \<and> runBash passing_shell ''sudo ls'' world0 = (''Error: Dangerous command blocked'', world0)
   \<and> spawns (snd (runBash passing_shell ''sudo ls'' world0)) = spawns world0
   \<and> runBash_s01 refusing_spawner ''sudo ls'' world0
       = (''Error: Dangerous command blocked'', world0)
   \<and> spawns (snd (runBash_s01 refusing_spawner ''sudo ls'' world0)) = spawns world0"
proof -
  have d: "''sudo'' \<in> set dangerous" by (simp add: dangerous_def)
  show ?thesis
    using d sublist_sudo
      denylist_blocks [OF d sublist_sudo, of passing_shell world0 refusing_spawner]
    by simp
qed

text \<open>A command that is not blocked does reach the shell, and is recorded as spawned.\<close>

lemma unblocked_is_spawned:
  "runBash passing_shell ''make test'' world0
     = (''boom'', world0\<lparr>spawns := [''make test'']\<rparr>)"
  by (simp add: runBash_def blocked_def dangerous_def str_includes_def execAsync_def
      passing_shell_def world0_def trim_def newline_def is_space_def whitespace_def
      substring_def)






text \<open>Cutting a text to a bound a second time changes nothing.\<close>

lemma truncation_idempotent: "substring (substring s 0 n) 0 n = substring s 0 n"
  by (simp add: substring_def)

subsection \<open>patch-file\<close>

text \<open>
  C5: when the path passes the confinement check and names a file whose text does not
  contain \<open>oldText\<close> as a substring, \<open>runEdit\<close> returns \<open>Error: Text not found in\<close>
  followed by the path as given, and the world, the file included, is unchanged.
\<close>

theorem patch_text_not_found:
  assumes "safePath wd p = Inr fp"
    and "files w fp = Some (File text)"
    and "\<not> sublist oldText text"
  shows "runEdit wd p oldText newText w = (''Error: Text not found in '' @ p, w)"
  using assms by (simp add: runEdit_def readFile_def str_includes_sublist)

lemma safePath_notes: "safePath ''/w'' ''notes/a.txt'' = Inr ''/w/notes/a.txt''"
  by (simp add: safePath_def resolve_def isAbsolute_def startsWith_def)

lemma world_not_in_hello: "\<not> sublist ''world'' ''hello''"
  by (simp add: str_includes_sublist [symmetric] str_includes_def)

theorem patch_text_not_found_witness:
  "runEdit ''/w'' ''notes/a.txt'' ''world'' ''there'' world0
     = (''Error: Text not found in notes/a.txt'', world0)"
proof -
  have f: "files world0 ''/w/notes/a.txt'' = Some (File ''hello'')"
    by (simp add: world0_def)
  show ?thesis
    using patch_text_not_found [OF safePath_notes f world_not_in_hello, of "''there''"]
    by simp
qed


lemma getSubstitution_literal:
  "CHR ''$'' \<notin> set rep \<Longrightarrow> getSubstitution m b a rep = rep"
  by (induction m b a rep rule: getSubstitution.induct) auto

text \<open>\<open>indexOf\<close> finds the first place where the text occurs.\<close>

lemma indexOf_Some:
  "indexOf s d = Some pos \<Longrightarrow>
     prefix d (drop pos s) \<and> (\<forall>i<pos. \<not> prefix d (drop i s))"
proof (induction s arbitrary: pos)
  case Nil
  then show ?case by (auto split: if_splits)
next
  case (Cons c cs)
  show ?case
  proof (cases "prefix d (c # cs)")
    case True
    with Cons.prems show ?thesis by simp
  next
    case False
    with Cons.prems obtain q where q: "indexOf cs d = Some q" "pos = Suc q" by auto
    from Cons.IH [OF q(1)]
    have ih: "prefix d (drop q cs)" "\<forall>i<q. \<not> prefix d (drop i cs)" by auto
    show ?thesis
    proof (intro conjI allI impI)
      show "prefix d (drop pos (c # cs))" using ih q by simp
    next
      fix i assume "i < pos"
      show "\<not> prefix d (drop i (c # cs))"
      proof (cases i)
        case 0
        with False show ?thesis by simp
      next
        case (Suc j)
        with \<open>i < pos\<close> q ih show ?thesis by simp
      qed
    qed
  qed
qed

text \<open>
  With a replacement text free of dollar signs, \<open>runEdit\<close> puts the new text in the place
  of the first occurrence of the old one and keeps the text around it.
\<close>

lemma runEdit_first_occurrence:
  assumes "safePath wd p = Inr fp"
    and "files w fp = Some (File text)"
    and "indexOf text oldText = Some pos"
    and "CHR ''$'' \<notin> set newText"
  shows "runEdit wd p oldText newText w
         = (''Edited '' @ p,
            w\<lparr>files := (files w)(fp \<mapsto>
               File (take pos text @ newText @ drop (pos + length oldText) text))\<rparr>)"
proof -
  have "files w fp \<noteq> Some Dir"
    using assms(2) by simp
  then show ?thesis
    using assms
    by (simp add: runEdit_def readFile_def writeFile_def str_includes_def replace_def
        Let_def getSubstitution_literal)
qed

text \<open>
  C4 (the code departs from the claim): the replacement text is not taken literally. In
  \<open>notes/a.txt\<close>, which holds \<open>hello\<close>, replacing \<open>hello\<close> by the three characters
  \<open>$$5\<close> leaves a file that holds the two characters \<open>$5\<close>.
\<close>

theorem patch_expands_dollar:
  "runEdit ''/w'' ''notes/a.txt'' ''hello'' ''$$5'' world0
     = (''Edited notes/a.txt'',
        world0\<lparr>files := (files world0)(''/w/notes/a.txt'' \<mapsto> File ''$5'')\<rparr>)"
  by (simp add: runEdit_def safePath_def resolve_def isAbsolute_def startsWith_def
      readFile_def writeFile_def world0_def str_includes_def replace_def)

text \<open>
  C9 (the code departs from the claim): with an empty \<open>oldText\<close> the test passes and
  the replacement goes in front of the old text, but it is not the new text as given: for
  the two characters \<open>$$\<close> the file \<open>notes/a.txt\<close> ends up holding \<open>$hello\<close>.
\<close>

theorem patch_empty_old_text_expands_dollar:
  "runEdit ''/w'' ''notes/a.txt'' [] ''$$'' world0
     = (''Edited notes/a.txt'',
        world0\<lparr>files := (files world0)(''/w/notes/a.txt'' \<mapsto> File ''$hello'')\<rparr>)"
  by (simp add: runEdit_def safePath_def resolve_def isAbsolute_def startsWith_def
      readFile_def writeFile_def world0_def str_includes_def replace_def)

text \<open>Without a dollar sign in it, the new text is put in front as it is.\<close>

lemma patch_empty_old_text:
  assumes "safePath wd p = Inr fp"
    and "files w fp = Some (File text)"
    and "CHR ''$'' \<notin> set newText"
  shows "runEdit wd p [] newText w
         = (''Edited '' @ p, w\<lparr>files := (files w)(fp \<mapsto> File (newText @ text))\<rparr>)"
proof -
  have "indexOf text [] = Some 0" by (cases "text") simp_all
  from runEdit_first_occurrence [OF assms(1) assms(2) this assms(3)] show ?thesis by simp
qed

subsection \<open>read-file\<close>




lemma split_no_separator: "sep \<notin> set s \<Longrightarrow> split sep s = [s]"
  by (induction s) auto











subsection \<open>Path confinement\<close>

text \<open>What \<open>safePath\<close> does enforce: a resolved path that does not begin with the
  characters of the working directory is refused by all three executors, and the world
  stays as it was.\<close>

lemma confined_by_prefix:
  assumes "\<not> startsWith (resolve wd p) wd"
  shows "runRead wd p limit w = (''Error: Path escapes workspace: '' @ p, w)"
    and "runWrite wd p text w = (''Error: Path escapes workspace: '' @ p, w)"
    and "runEdit wd p oldText newText w = (''Error: Path escapes workspace: '' @ p, w)"
  using assms by (simp_all add: runRead_def runWrite_def runEdit_def safePath_def)

lemma safePath_sibling: "safePath ''/w'' ''../w2/secret.txt'' = Inr ''/w2/secret.txt''"
  by (simp add: safePath_def resolve_def isAbsolute_def startsWith_def)

text \<open>
  C1 (the code departs from the claim): with the working directory \<open>/w\<close>, the path
  \<open>../w2/secret.txt\<close> resolves to \<open>/w2/secret.txt\<close>, which is not in \<open>/w\<close> but
  begins with its characters. \<open>safePath\<close> lets it through: the file is read, overwritten
  and patched.
\<close>

theorem sibling_directory_escapes:
  "resolve ''/w'' ''../w2/secret.txt'' = ''/w2/secret.txt''
   \<and> \<not> inside ''/w'' (resolve ''/w'' ''../w2/secret.txt'')
   \<and> runRead ''/w'' ''../w2/secret.txt'' None world0 = (''key'', world0)
   \<and> runWrite ''/w'' ''../w2/secret.txt'' ''hi'' world0
       = (''Wrote 2 bytes to ../w2/secret.txt'',
          world0\<lparr>files := (files world0)(''/w2'' \<mapsto> Dir, ''/w2/secret.txt'' \<mapsto> File ''hi'')\<rparr>)
   \<and> runEdit ''/w'' ''../w2/secret.txt'' ''key'' ''lost'' world0
       = (''Edited ../w2/secret.txt'',
          world0\<lparr>files := (files world0)(''/w2/secret.txt'' \<mapsto> File ''lost'')\<rparr>)"
proof -
  have r: "resolve ''/w'' ''../w2/secret.txt'' = ''/w2/secret.txt''"
    by (simp add: resolve_def isAbsolute_def startsWith_def)
  have i: "\<not> inside ''/w'' ''/w2/secret.txt''"
    by (simp add: inside_def segments_def)
  have rd: "runRead ''/w'' ''../w2/secret.txt'' None world0 = (''key'', world0)"
    by (simp add: runRead_def safePath_sibling readFile_def world0_def newline_def
        substring_def)
  have wr: "runWrite ''/w'' ''../w2/secret.txt'' ''hi'' world0
       = (''Wrote 2 bytes to ../w2/secret.txt'',
          world0\<lparr>files := (files world0)(''/w2'' \<mapsto> Dir, ''/w2/secret.txt'' \<mapsto> File ''hi'')\<rparr>)"
    by (simp add: runWrite_def safePath_sibling mkdir_def dirname_def segments_def
        writeFile_def world0_def byteLength_def show_nat.simps)
  have ed: "runEdit ''/w'' ''../w2/secret.txt'' ''key'' ''lost'' world0
       = (''Edited ../w2/secret.txt'',
          world0\<lparr>files := (files world0)(''/w2/secret.txt'' \<mapsto> File ''lost'')\<rparr>)"
    by (simp add: runEdit_def safePath_sibling readFile_def writeFile_def world0_def
        str_includes_def replace_def)
  show ?thesis using r i rd wr ed by simp
qed


subsection \<open>The agent loop\<close>

text \<open>A well-formed tool call is answered with a text, whatever the world is.\<close>

lemma is_string_cases: "is_string v \<Longrightarrow> \<exists>s. v = JStr s"
  by (cases v) simp_all

lemma is_limit_cases: "is_limit v \<Longrightarrow> v = JUndefined \<or> (\<exists>n. v = JNum n)"
  by (cases v) simp_all

lemma lookup_own:
  "lookup ''bash'' = Some bash_handler"
  "lookup ''read_file'' = Some read_file_handler"
  "lookup ''write_file'' = Some write_file_handler"
  "lookup ''edit_file'' = Some edit_file_handler"
  by (simp_all add: lookup_def TOOL_HANDLERS_def)

lemma lookup_unknown:
  assumes "name \<noteq> ''bash''" "name \<noteq> ''read_file''" "name \<noteq> ''write_file''"
    "name \<noteq> ''edit_file''" "\<not> List.member Object_prototype name"
  shows "lookup name = None"
  using assms by (simp add: lookup_def TOOL_HANDLERS_def)

lemma dispatch_well_formed:
  assumes "well_formed toolCall"
  shows "\<exists>output w'. dispatch env toolCall w = (Inr output, w')"
proof -
  from assms obtain kvs where
    args: "tc_arguments toolCall = Json (JObj kvs)" and
    typed: "well_typed (tc_name toolCall) kvs"
    by (auto simp: well_formed_def split: payload.splits jsval.splits)
  have g: "\<And>k. get (JObj kvs) k = Inr (field kvs k)" by (simp add: field_def)
  consider (c_bash) "tc_name toolCall = ''bash''"
    | (c_read) "tc_name toolCall = ''read_file''"
    | (c_write) "tc_name toolCall = ''write_file''"
    | (c_edit) "tc_name toolCall = ''edit_file''"
    | (c_unknown) "tc_name toolCall \<noteq> ''bash''" "tc_name toolCall \<noteq> ''read_file''"
        "tc_name toolCall \<noteq> ''write_file''" "tc_name toolCall \<noteq> ''edit_file''"
    by blast
  then show ?thesis
  proof cases
    case c_bash
    with typed obtain c where "field kvs ''command'' = JStr c"
      by (auto simp: well_typed_def dest: is_string_cases)
    then show ?thesis
      using c_bash args
      by (simp add: dispatch_def lookup_own bash_handler_def g returned_def del: get.simps)
  next
    case c_read
    with typed obtain p where p: "field kvs ''path'' = JStr p"
      and l: "is_limit (field kvs ''limit'')"
      by (auto simp: well_typed_def dest: is_string_cases)
    from l show ?thesis
      using c_read args p
      by (auto simp: dispatch_def lookup_own read_file_handler_def g returned_def
          dest!: is_limit_cases simp del: get.simps)
  next
    case c_write
    with typed obtain p c where "field kvs ''path'' = JStr p" "field kvs ''content'' = JStr c"
      by (auto simp: well_typed_def dest!: is_string_cases)
    then show ?thesis
      using c_write args
      by (simp add: dispatch_def lookup_own write_file_handler_def g returned_def del: get.simps)
  next
    case c_edit
    with typed obtain p ot nt where "field kvs ''path'' = JStr p"
      "field kvs ''old_text'' = JStr ot" "field kvs ''new_text'' = JStr nt"
      by (auto simp: well_typed_def dest!: is_string_cases)
    then show ?thesis
      using c_edit args
      by (simp add: dispatch_def lookup_own edit_file_handler_def g returned_def del: get.simps)
  next
    case c_unknown
    with typed have "\<not> List.member Object_prototype (tc_name toolCall)"
      by (simp add: well_typed_def)
    with c_unknown have "lookup (tc_name toolCall) = None"
      by (simp add: lookup_unknown)
    then show ?thesis using args by (simp add: dispatch_def)
  qed
qed

text \<open>
  The \<open>for\<close> loop over well-formed tool calls throws nothing and appends one tool message
  for each call, in the order of the calls, each with the identifier of its call.
\<close>

lemma tool_round_well_formed:
  assumes "list_all well_formed calls"
  shows "\<exists>outputs w'. length outputs = length calls
           \<and> tool_round env calls (messages, w)
               = (None, messages @ map2 Tool (map tc_id calls) outputs, w')"
  using assms
proof (induction calls arbitrary: messages w)
  case Nil
  then show ?case by simp
next
  case (Cons toolCall rest)
  then have wf: "well_formed toolCall" and wfs: "list_all well_formed rest" by simp_all
  from dispatch_well_formed [OF wf] obtain out w1
    where d: "dispatch env toolCall w = (Inr out, w1)" by blast
  let ?w2 = "w1\<lparr>console := console w1 @ [trace_line (tc_name toolCall) out]\<rparr>"
  from Cons.IH [OF wfs, of "messages @ [Tool (tc_id toolCall) out]" ?w2]
  obtain outputs w' where
    len: "length outputs = length rest" and
    r: "tool_round env rest (messages @ [Tool (tc_id toolCall) out], ?w2)
          = (None, (messages @ [Tool (tc_id toolCall) out])
                     @ map2 Tool (map tc_id rest) outputs, w')"
    by blast
  have "length (out # outputs) = length (toolCall # rest)" using len by simp
  moreover have "tool_round env (toolCall # rest) (messages, w)
      = (None, messages @ map2 Tool (map tc_id (toolCall # rest)) (out # outputs), w')"
    using d r by simp
  ultimately show ?case by blast
qed


text \<open>The same for the Anthropic variant, where the results are collected in a list.\<close>

lemma use_tools_readable:
  assumes "list_all (readable to_string) blocks"
  shows "\<exists>outputs w'. length outputs = length (tool_use_ids blocks)
           \<and> use_tools sp to_string blocks (results, w)
               = (None, results @ zip (tool_use_ids blocks) outputs, w')"
  using assms
proof (induction blocks arbitrary: results w)
  case Nil
  then show ?case by simp
next
  case (Cons b rest)
  then have rest: "list_all (readable to_string) rest" by simp
  show ?case
  proof (cases b)
    case (ToolUse uid name input)
    with Cons.prems obtain command where c: "command_of to_string input = Inr command"
      by (auto split: sum.splits)
    obtain out w1 where
      run: "runBash_s01 sp command (w\<lparr>console := console w @ [yellow command]\<rparr>) = (out, w1)"
      by (cases "runBash_s01 sp command (w\<lparr>console := console w @ [yellow command]\<rparr>)")
    let ?w2 = "w1\<lparr>console := console w1 @ [substring out 0 200]\<rparr>"
    from Cons.IH [OF rest, of "results @ [(uid, out)]" ?w2]
    obtain outputs w' where
      len: "length outputs = length (tool_use_ids rest)" and
      r: "use_tools sp to_string rest (results @ [(uid, out)], ?w2)
            = (None, (results @ [(uid, out)]) @ zip (tool_use_ids rest) outputs, w')"
      by blast
    have "length (out # outputs) = length (tool_use_ids (b # rest))"
      using len ToolUse by simp
    moreover have "use_tools sp to_string (b # rest) (results, w)
        = (None, results @ zip (tool_use_ids (b # rest)) (out # outputs), w')"
      using ToolUse c run r by simp
    ultimately show ?thesis by blast
  next
    case (TextBlock t)
    with Cons.IH [OF rest, of results w] show ?thesis by simp
  next
    case OtherBlock
    with Cons.IH [OF rest, of results w] show ?thesis by simp
  qed
qed

text \<open>
  When the first message of the model holds no tool calls, the loop appends it and returns.
\<close>

lemma agentLoop_returns:
  assumes "llm (System (SYSTEM env) # messages) = Inr r"
    and "tool_calls (choice_message r) = None"
  shows "agentLoop env llm (messages, w)
         = Some (None, messages @ [Assistant (choice_message r)],
                 log_content (choice_message r) w)"
  by (subst agentLoop.simps) (simp add: iteration_def assms Let_def)

text \<open>
  When a pass ends with all tool calls answered, the loop goes on from the new state: its
  next step is the next call of the model, on the conversation with all results.
\<close>

lemma agentLoop_continues:
  "iteration env llm state = Inr state' \<Longrightarrow> agentLoop env llm state = agentLoop env llm state'"
  by (subst agentLoop.simps) simp

lemma agentLoop_anthropic_continues:
  "iteration_anthropic sp to_string llm state = Inr state' \<Longrightarrow>
     agentLoop_anthropic sp to_string llm state = agentLoop_anthropic sp to_string llm state'"
  by (subst agentLoop_anthropic.simps) simp

text \<open>
  C2, amended: when the model's message comes with the finish reason \<open>tool_calls\<close> and
  holds N well-formed tool calls, one pass of the loop of \<open>s02_tool_use.ts\<close> appends the
  message and then exactly N tool messages, the k-th with the identifier of the k-th call,
  and continues with the next pass, which starts with the next call of the model. In the
  Anthropic variant, when the reply comes with the stop reason \<open>tool_use\<close> and the
  command of each of its N \<open>tool_use\<close> blocks can be read, one pass appends the reply and
  then a single user turn that holds exactly N results, the k-th with the identifier of
  the k-th block.
\<close>

theorem dispatch_pairing:
  "(llm (System (SYSTEM env) # messages) = Inr r
      \<and> finish_reason r = ''tool_calls''
      \<and> tool_calls (choice_message r) = Some calls
      \<and> list_all well_formed calls
    \<longrightarrow> (\<exists>outputs w'. length outputs = length calls
           \<and> iteration env llm (messages, w)
               = Inr (messages @ [Assistant (choice_message r)]
                        @ map2 Tool (map tc_id calls) outputs, w')
           \<and> agentLoop env llm (messages, w)
               = agentLoop env llm
                   (messages @ [Assistant (choice_message r)]
                      @ map2 Tool (map tc_id calls) outputs, w')))
   \<and> (llm_a turns = Inr ra
      \<and> stop_reason ra = ''tool_use''
      \<and> list_all (readable to_string) (reply_content ra)
    \<longrightarrow> (\<exists>outputs w'. length outputs = length (tool_use_ids (reply_content ra))
           \<and> iteration_anthropic sp to_string llm_a (turns, wa)
               = Inr (turns @ [AssistantBlocks (reply_content ra),
                               ToolResults (zip (tool_use_ids (reply_content ra)) outputs)],
                      w')
           \<and> agentLoop_anthropic sp to_string llm_a (turns, wa)
               = agentLoop_anthropic sp to_string llm_a
                   (turns @ [AssistantBlocks (reply_content ra),
                             ToolResults (zip (tool_use_ids (reply_content ra)) outputs)],
                    w')))"
proof (intro conjI impI)
  assume a: "llm (System (SYSTEM env) # messages) = Inr r
      \<and> finish_reason r = ''tool_calls''
      \<and> tool_calls (choice_message r) = Some calls
      \<and> list_all well_formed calls"
  let ?ms = "messages @ [Assistant (choice_message r)]"
  let ?w = "log_content (choice_message r) w"
  from a have wf: "list_all well_formed calls" by simp
  from tool_round_well_formed [OF wf, of env ?ms ?w]
  obtain outputs w' where
    len: "length outputs = length calls" and
    r: "tool_round env calls (?ms, ?w) = (None, ?ms @ map2 Tool (map tc_id calls) outputs, w')"
    by blast
  have it: "iteration env llm (messages, w)
      = Inr (?ms @ map2 Tool (map tc_id calls) outputs, w')"
    using a r by (simp add: iteration_def Let_def)
  from agentLoop_continues [OF it]
  have "agentLoop env llm (messages, w)
      = agentLoop env llm (?ms @ map2 Tool (map tc_id calls) outputs, w')" .
  with len it show "\<exists>outputs w'. length outputs = length calls
           \<and> iteration env llm (messages, w)
               = Inr (messages @ [Assistant (choice_message r)]
                        @ map2 Tool (map tc_id calls) outputs, w')
           \<and> agentLoop env llm (messages, w)
               = agentLoop env llm
                   (messages @ [Assistant (choice_message r)]
                      @ map2 Tool (map tc_id calls) outputs, w')"
    by auto
next
  assume a: "llm_a turns = Inr ra
      \<and> stop_reason ra = ''tool_use''
      \<and> list_all (readable to_string) (reply_content ra)"
  then have rd: "list_all (readable to_string) (reply_content ra)" by simp
  from use_tools_readable [OF rd, of sp "[]" wa]
  obtain outputs w' where
    len: "length outputs = length (tool_use_ids (reply_content ra))" and
    r: "use_tools sp to_string (reply_content ra) ([], wa)
          = (None, zip (tool_use_ids (reply_content ra)) outputs, w')"
    by auto
  have it: "iteration_anthropic sp to_string llm_a (turns, wa)
      = Inr (turns @ [AssistantBlocks (reply_content ra),
                      ToolResults (zip (tool_use_ids (reply_content ra)) outputs)], w')"
    using a r by (simp add: iteration_anthropic_def Let_def)
  from agentLoop_anthropic_continues [OF it]
  have "agentLoop_anthropic sp to_string llm_a (turns, wa)
      = agentLoop_anthropic sp to_string llm_a
          (turns @ [AssistantBlocks (reply_content ra),
                    ToolResults (zip (tool_use_ids (reply_content ra)) outputs)], w')" .
  with len it show "\<exists>outputs w'. length outputs = length (tool_use_ids (reply_content ra))
           \<and> iteration_anthropic sp to_string llm_a (turns, wa)
               = Inr (turns @ [AssistantBlocks (reply_content ra),
                               ToolResults (zip (tool_use_ids (reply_content ra)) outputs)],
                      w')
           \<and> agentLoop_anthropic sp to_string llm_a (turns, wa)
               = agentLoop_anthropic sp to_string llm_a
                   (turns @ [AssistantBlocks (reply_content ra),
                             ToolResults (zip (tool_use_ids (reply_content ra)) outputs)],
                    w')"
    by auto
qed

text \<open>The stub model asks for its calls as long as no tool message is in the conversation.\<close>

lemma asks_first:
  "\<not> list_ex is_tool messages \<Longrightarrow>
     asks reason calls (System sys # messages)
       = Inr \<lparr>finish_reason = reason, choice_message = request calls\<rparr>"
  by (simp add: asks_def)

theorem dispatch_pairing_witness:
  "(\<exists>outputs w'. length outputs = length [bash_call, search_call]
      \<and> iteration env0 (asks ''tool_calls'' [bash_call, search_call])
            ([User ''run the tests''], world0)
          = Inr ([User ''run the tests''] @ [Assistant (request [bash_call, search_call])]
                   @ map2 Tool (map tc_id [bash_call, search_call]) outputs, w')
      \<and> agentLoop env0 (asks ''tool_calls'' [bash_call, search_call])
            ([User ''run the tests''], world0)
          = agentLoop env0 (asks ''tool_calls'' [bash_call, search_call])
              ([User ''run the tests''] @ [Assistant (request [bash_call, search_call])]
                 @ map2 Tool (map tc_id [bash_call, search_call]) outputs, w'))
   \<and> (\<exists>outputs w'. length outputs = length (tool_use_ids two_tool_uses)
      \<and> iteration_anthropic quiet_spawner object_to_string
            (asks_anthropic ''tool_use'' two_tool_uses) ([UserText ''run the tests''], world0)
          = Inr ([UserText ''run the tests''] @ [AssistantBlocks two_tool_uses,
                   ToolResults (zip (tool_use_ids two_tool_uses) outputs)], w')
      \<and> agentLoop_anthropic quiet_spawner object_to_string
            (asks_anthropic ''tool_use'' two_tool_uses) ([UserText ''run the tests''], world0)
          = agentLoop_anthropic quiet_spawner object_to_string
              (asks_anthropic ''tool_use'' two_tool_uses)
              ([UserText ''run the tests''] @ [AssistantBlocks two_tool_uses,
                 ToolResults (zip (tool_use_ids two_tool_uses) outputs)], w'))"
proof -
  let ?r = "\<lparr>finish_reason = ''tool_calls'', choice_message = request [bash_call, search_call]\<rparr>"
  let ?ra = "\<lparr>stop_reason = ''tool_use'', reply_content = two_tool_uses\<rparr>"
  have m: "asks ''tool_calls'' [bash_call, search_call]
             (System (SYSTEM env0) # [User ''run the tests'']) = Inr ?r"
    by (simp add: asks_first)
  have wf: "list_all well_formed [bash_call, search_call]"
    by (simp add: well_formed_def well_typed_def bash_call_def search_call_def field_def
        Object_prototype_def)
  have ma: "asks_anthropic ''tool_use'' two_tool_uses [UserText ''run the tests''] = Inr ?ra"
    by (simp add: asks_anthropic_def is_results_def)
  have rd: "list_all (readable object_to_string) two_tool_uses"
    by (simp add: two_tool_uses_def command_of_def field_def)
  note h = dispatch_pairing [of "asks ''tool_calls'' [bash_call, search_call]" env0
        "[User ''run the tests'']" ?r "[bash_call, search_call]" world0
        "asks_anthropic ''tool_use'' two_tool_uses" "[UserText ''run the tests'']" ?ra
        object_to_string quiet_spawner world0]
  have p1: "asks ''tool_calls'' [bash_call, search_call]
              (System (SYSTEM env0) # [User ''run the tests'']) = Inr ?r
      \<and> finish_reason ?r = ''tool_calls''
      \<and> tool_calls (choice_message ?r) = Some [bash_call, search_call]
      \<and> list_all well_formed [bash_call, search_call]"
    using m wf by (simp add: request_def)
  have p2: "asks_anthropic ''tool_use'' two_tool_uses [UserText ''run the tests''] = Inr ?ra
      \<and> stop_reason ?ra = ''tool_use''
      \<and> list_all (readable object_to_string) (reply_content ?ra)"
    using ma rd by simp
  from h [THEN conjunct1, THEN mp, OF p1] h [THEN conjunct2, THEN mp, OF p2]
  show ?thesis by simp
qed

text \<open>The first pass of the example, computed: a shell command and an unknown tool.\<close>

lemma pairing_example:
  "iteration env0 (asks ''tool_calls'' [bash_call, search_call])
     ([User ''run the tests''], world0)
   = Inr ([User ''run the tests'', Assistant (request [bash_call, search_call]),
           Tool ''call_1'' ''boom'', Tool ''call_2'' ''Unknown tool: search''],
          world0\<lparr>spawns := [''make test''],
                 console := [''> bash: boom'', ''> search: Unknown tool: search'']\<rparr>)"
  by (simp add: iteration_def asks_def request_def log_content_def dispatch_def
      bash_call_def search_call_def lookup_def TOOL_HANDLERS_def Object_prototype_def
      bash_handler_def field_def returned_def env0_def runBash_def blocked_def dangerous_def
      str_includes_def execAsync_def passing_shell_def world0_def trim_def newline_def
      is_space_def whitespace_def substring_def trace_line_def escape_newlines_def)

text \<open>
  C2, as stated, fails. In \<open>s02_tool_use.ts\<close> a message that holds a tool call but comes
  with the finish reason \<open>length\<close> makes the loop return at once: no tool message answers
  the call, and the next call of the model, for the next query, gets the conversation as
  it is. In the Anthropic variant a reply with two tool uses is answered by one turn, which
  holds both results.
\<close>

theorem pairing_counterexample:
  "agentLoop env0 (asks ''length'' [bash_call]) ([User ''run the tests''], world0)
     = Some (None, [User ''run the tests'', Assistant (request [bash_call])], world0)
   \<and> iteration_anthropic quiet_spawner object_to_string
         (asks_anthropic ''tool_use'' two_tool_uses) ([UserText ''run the tests''], world0)
     = Inr ([UserText ''run the tests'', AssistantBlocks two_tool_uses,
             ToolResults [(''toolu_1'', ''(no output)''), (''toolu_2'', ''(no output)'')]],
            world0\<lparr>spawns := [''make test'', ''ls''],
                   console := [yellow ''make test'', ''(no output)'',
                               yellow ''ls'', ''(no output)'']\<rparr>)"
proof -
  have a: "agentLoop env0 (asks ''length'' [bash_call]) ([User ''run the tests''], world0)
     = Some (None, [User ''run the tests'', Assistant (request [bash_call])], world0)"
    by (subst agentLoop.simps)
      (simp add: iteration_def asks_def request_def log_content_def)
  have b: "iteration_anthropic quiet_spawner object_to_string
         (asks_anthropic ''tool_use'' two_tool_uses) ([UserText ''run the tests''], world0)
     = Inr ([UserText ''run the tests'', AssistantBlocks two_tool_uses,
             ToolResults [(''toolu_1'', ''(no output)''), (''toolu_2'', ''(no output)'')]],
            world0\<lparr>spawns := [''make test'', ''ls''],
                   console := [yellow ''make test'', ''(no output)'',
                               yellow ''ls'', ''(no output)'']\<rparr>)"
    by (simp add: iteration_anthropic_def asks_anthropic_def is_results_def two_tool_uses_def
        command_of_def field_def runBash_s01_def blocked_def dangerous_def str_includes_def
        quiet_spawner_def trim_def substring_def world0_def)
  show ?thesis using a b by simp
qed

text \<open>
  C3 (the code departs from the claim): in \<open>s02_tool_use.ts\<close> nothing is coerced. A
  call of \<open>bash\<close> whose arguments are not JSON makes \<open>JSON.parse\<close> throw a
  \<open>SyntaxError\<close> out of the loop, and one whose arguments are the empty object makes
  \<open>runBash\<close> throw a \<open>TypeError\<close> out of it; in both cases no tool message is appended.
\<close>

theorem malformed_arguments_raise:
  "agentLoop env0 (asks ''tool_calls'' [malformed_call]) ([User ''run the tests''], world0)
     = Some (Some (SyntaxError ''JSON Parse error''),
             [User ''run the tests'', Assistant (request [malformed_call])], world0)
   \<and> agentLoop env0 (asks ''tool_calls'' [empty_call]) ([User ''run the tests''], world0)
     = Some (Some (TypeError ''command.includes cannot be called''),
             [User ''run the tests'', Assistant (request [empty_call])], world0)"
proof -
  have a: "agentLoop env0 (asks ''tool_calls'' [malformed_call])
        ([User ''run the tests''], world0)
     = Some (Some (SyntaxError ''JSON Parse error''),
             [User ''run the tests'', Assistant (request [malformed_call])], world0)"
    by (subst agentLoop.simps)
      (simp add: iteration_def asks_def request_def log_content_def dispatch_def
        malformed_call_def)
  have b: "agentLoop env0 (asks ''tool_calls'' [empty_call]) ([User ''run the tests''], world0)
     = Some (Some (TypeError ''command.includes cannot be called''),
             [User ''run the tests'', Assistant (request [empty_call])], world0)"
    by (subst agentLoop.simps)
      (simp add: iteration_def asks_def request_def log_content_def dispatch_def
        empty_call_def lookup_def TOOL_HANDLERS_def bash_handler_def field_def)
  show ?thesis using a b by simp
qed

text \<open>
  The OpenAI variant of \<open>s01_agent_loop\<close> does what the claim says on the first of these
  inputs: the arguments are replaced by an empty command and the call is answered.
\<close>

lemma sibling_answers_malformed_arguments:
  "iteration_s01 quiet_spawner object_to_string (asks ''tool_calls'' [malformed_call])
     ([User ''run the tests''], world0)
   = Inr ([User ''run the tests'', Assistant (request [malformed_call]),
           Tool ''call_1'' ''(no output)''],
          world0\<lparr>spawns := [[]], console := [yellow [], ''(no output)'']\<rparr>)"
  by (simp add: iteration_s01_def asks_def request_def malformed_call_def command_of_def
      field_def runBash_s01_def blocked_def dangerous_def str_includes_def quiet_spawner_def
      trim_def substring_def world0_def)

text \<open>
  A name that is neither a key of \<open>TOOL_HANDLERS\<close> nor a property of
  \<open>Object.prototype\<close> has no handler, and a call of it whose arguments parse is answered
  with \<open>Unknown tool:\<close> and the name.
\<close>

lemma lookup_None:
  "(lookup name = None)
     = (name \<notin> set (map fst TOOL_HANDLERS) \<and> name \<notin> set Object_prototype)"
  by (auto simp: lookup_def TOOL_HANDLERS_def split: option.splits if_splits)

lemma unknown_tool_reported:
  assumes "lookup (tc_name toolCall) = None"
    and "tc_arguments toolCall = Json args"
  shows "dispatch env toolCall w = (Inr (''Unknown tool: '' @ tc_name toolCall), w)"
  using assms by (simp add: dispatch_def)

text \<open>
  C8 (the code departs from the claim): the arguments are parsed before the handler is
  looked up, so a call of the unknown tool \<open>search\<close> whose arguments are not JSON throws
  a \<open>SyntaxError\<close> out of the loop instead of being answered. And \<open>toString\<close>, which
  is not a key of \<open>TOOL_HANDLERS\<close>, is found in its prototype: the call is answered with
  \<open>[object Undefined]\<close>.
\<close>

theorem unknown_tool_with_malformed_arguments_raises:
  "lookup ''search'' = None
   \<and> dispatch env0 malformed_search_call world0
       = (Inl (SyntaxError ''JSON Parse error''), world0)
   \<and> agentLoop env0 (asks ''tool_calls'' [malformed_search_call])
         ([User ''run the tests''], world0)
       = Some (Some (SyntaxError ''JSON Parse error''),
               [User ''run the tests'', Assistant (request [malformed_search_call])], world0)
   \<and> map_of TOOL_HANDLERS ''toString'' = None
   \<and> dispatch env0 toString_call world0 = (Inr ''[object Undefined]'', world0)"
proof -
  have l: "lookup ''search'' = None"
    by (simp add: lookup_def TOOL_HANDLERS_def Object_prototype_def)
  have d: "dispatch env0 malformed_search_call world0
       = (Inl (SyntaxError ''JSON Parse error''), world0)"
    by (simp add: dispatch_def malformed_search_call_def)
  have a: "agentLoop env0 (asks ''tool_calls'' [malformed_search_call])
         ([User ''run the tests''], world0)
       = Some (Some (SyntaxError ''JSON Parse error''),
               [User ''run the tests'', Assistant (request [malformed_search_call])], world0)"
    by (subst agentLoop.simps)
      (simp add: iteration_def asks_def request_def log_content_def d)
  have t: "map_of TOOL_HANDLERS ''toString'' = None"
    by (simp add: TOOL_HANDLERS_def)
  have s: "dispatch env0 toString_call world0 = (Inr ''[object Undefined]'', world0)"
    by (simp add: dispatch_def toString_call_def lookup_def TOOL_HANDLERS_def
        Object_prototype_def inherited_def)
  show ?thesis using l d a t s by simp
qed

end
